theory Spec2Isabelle
  imports Complex_Main "HOL-Library.Sublist"
begin

section \<open>Zoom Earth rain alert: a shallow embedding of zoom\_earth\_rain\_alert.py\<close>

text \<open>
  Python floats are modelled as exact reals: every theorem below about a threshold is a
  theorem about the branch the code takes for the saturation, hue and ratio it has
  computed, and does not depend on rounding. Python strings are byte strings in UTF-8;
  the Chinese literals of the source are written out as their bytes.
\<close>

subsection \<open>Exceptions\<close>

datatype blocked = ButtonDisabled | ButtonNotFound | ButtonNotClickable

datatype exn =
    ZeroDivisionError
  | ValueError
  | WebDriverException
  | HTTPError
  | NextButtonNotClickable blocked

subsection \<open>Configuration constants\<close>

definition SATURATION_THRESHOLD :: real where
  "SATURATION_THRESHOLD = 0.26"

definition HUE_RANGES_DEG :: "(real \<times> real) list" where
  "HUE_RANGES_DEG = [(170, 260), (0, 60), (260, 330)]"

definition RAIN_SCORE_THRESHOLD :: real where
  "RAIN_SCORE_THRESHOLD = 110"

definition FORECAST_MINUTES :: int where
  "FORECAST_MINUTES = 15"

subsection \<open>Colour classifier\<close>

type_synonym rgb = "real \<times> real \<times> real"
type_synonym hsv = "real \<times> real \<times> real"

text \<open>
  \<^verbatim>\<open>colorsys.rgb_to_hsv\<close> of the Python standard library, line by line. The quotient
  \<^verbatim>\<open>rangec / maxc\<close> raises ZeroDivisionError when the largest channel is zero and the
  channels differ (which needs a negative channel); \<^verbatim>\<open>x % 1.0\<close> is the fractional
  part \<open>frac x\<close>.
\<close>

definition rgb_to_hsv :: "real \<Rightarrow> real \<Rightarrow> real \<Rightarrow> exn + hsv" where
  "rgb_to_hsv r g b =
     (let maxc = max (max r g) b;
          minc = min (min r g) b;
          rangec = maxc - minc;
          v = maxc
      in if minc = maxc then Inr (0, 0, v)
         else if maxc = 0 then Inl ZeroDivisionError
         else
           let s = rangec / maxc;
               rc = (maxc - r) / rangec;
               gc = (maxc - g) / rangec;
               bc = (maxc - b) / rangec;
               h = (if r = maxc then bc - gc
                    else if g = maxc then 2 + rc - bc
                    else 4 + gc - rc)
           in Inr (frac (h / 6), s, v))"

definition rgb_to_hsv_deg :: "rgb \<Rightarrow> exn + hsv" where
  "rgb_to_hsv_deg rgb =
     (case rgb of (r, g, b) \<Rightarrow>
        (case rgb_to_hsv (r / 255) (g / 255) (b / 255) of
           Inl e \<Rightarrow> Inl e
         | Inr (h, s, v) \<Rightarrow> Inr (h * 360, s, v)))"

fun hue_in_ranges :: "real \<Rightarrow> (real \<times> real) list \<Rightarrow> bool" where
  "hue_in_ranges h_deg [] = False"
| "hue_in_ranges h_deg ((a, b) # ranges) =
     (if a \<le> b then
        (if a \<le> h_deg \<and> h_deg \<le> b then True else hue_in_ranges h_deg ranges)
      else
        (if h_deg \<ge> a \<or> h_deg \<le> b then True else hue_in_ranges h_deg ranges))"

text \<open>
  The second component of the result of \<^verbatim>\<open>is_rain_color\<close> is an f-string that renders the
  HSV triple and names the branch taken; the model keeps the branch and the triple.
\<close>

datatype reason = SatBelow hsv | HueOutside hsv | HitBand hsv

text \<open>
  \<^verbatim>\<open>is_rain_color\<close> reads the module-level constants; \<open>is_rain_color_with\<close> is its body
  with the two constants as arguments.
\<close>

definition is_rain_color_with ::
    "real \<Rightarrow> (real \<times> real) list \<Rightarrow> rgb \<Rightarrow> exn + (bool \<times> reason)" where
  "is_rain_color_with threshold ranges rgb =
     (case rgb_to_hsv_deg rgb of
        Inl e \<Rightarrow> Inl e
      | Inr (h, s, v) \<Rightarrow>
          if s < threshold then Inr (False, SatBelow (h, s, v))
          else if \<not> hue_in_ranges h ranges then Inr (False, HueOutside (h, s, v))
          else Inr (True, HitBand (h, s, v)))"

definition is_rain_color :: "rgb \<Rightarrow> exn + (bool \<times> reason)" where
  "is_rain_color rgb = is_rain_color_with SATURATION_THRESHOLD HUE_RANGES_DEG rgb"

text \<open>The test of one range as the specification words it, for comparison.\<close>

definition in_hue_range :: "real \<Rightarrow> real \<times> real \<Rightarrow> bool" where
  "in_hue_range h rng =
     (case rng of (low, high) \<Rightarrow>
        if low \<le> high then low \<le> h \<and> h \<le> high else h \<ge> low \<or> h \<le> high)"

definition rain_score :: "rgb \<Rightarrow> real" where
  "rain_score rgb =
     (case rgb of (r, g, b) \<Rightarrow>
        let warm = r; purple = (r + b) * 0.6; penalty_green = g * 0.9
        in warm + purple - penalty_green)"

subsection \<open>Images and the region sampler\<close>

text \<open>
  A pixel is the RGB triple that \<^verbatim>\<open>convert("RGB").getdata()\<close> yields: three channel values,
  each a natural number. An image has a width, a height and a pixel at every coordinate
  inside \<open>[0, width) \<times> [0, height)\<close>; \<open>getpixel\<close> is only meaningful there.
\<close>

type_synonym pixel = "nat \<times> nat \<times> nat"

record image =
  width :: int
  height :: int
  getpixel :: "int \<times> int \<Rightarrow> pixel"

record region =
  region_size :: "int \<times> int"
  getdata :: "pixel list"

definition in_bounds :: "image \<Rightarrow> int \<times> int \<Rightarrow> bool" where
  "in_bounds img xy =
     (case xy of (x, y) \<Rightarrow> 0 \<le> x \<and> x < width img \<and> 0 \<le> y \<and> y < height img)"

text \<open>
  \<^verbatim>\<open>Image.crop\<close> of the Pillow library, which is not part of the repository and which
  the repository installs without a version bound: a box \<open>(left, upper, right, lower)\<close>
  whose right is less than its left, or whose lower is less than its upper, is refused
  with ValueError; otherwise the result has size \<open>(right - left, lower - upper)\<close>, its
  pixels in row-major order, and a coordinate outside the image reads as black. (Old
  releases of Pillow, from before that check was added, clipped an inverted box to an
  empty image instead.)
\<close>

definition box_coords :: "int \<times> int \<times> int \<times> int \<Rightarrow> (int \<times> int) list" where
  "box_coords box =
     (case box of (left, upper, right, lower) \<Rightarrow>
        concat (map (\<lambda>y. map (\<lambda>x. (x, y)) [left..right - 1]) [upper..lower - 1]))"

definition crop :: "image \<Rightarrow> int \<times> int \<times> int \<times> int \<Rightarrow> exn + region" where
  "crop img box =
     (case box of (left, upper, right, lower) \<Rightarrow>
        if right < left then Inl ValueError
        else if lower < upper then Inl ValueError
        else Inr \<lparr>region_size = (right - left, lower - upper),
                  getdata = map (\<lambda>xy. if in_bounds img xy then getpixel img xy else (0, 0, 0))
                                (box_coords box)\<rparr>)"

text \<open>The box that \<^verbatim>\<open>avg_color\<close> and \<^verbatim>\<open>rain_coverage\<close> both compute and pass to crop.\<close>

definition clamped_box :: "image \<Rightarrow> int \<times> int \<Rightarrow> int \<Rightarrow> int \<times> int \<times> int \<times> int" where
  "clamped_box img center_xy radius =
     (case center_xy of (cx, cy) \<Rightarrow>
        let x0 = max (cx - radius) 0;
            y0 = max (cy - radius) 0;
            x1 = min (cx + radius) (width img - 1);
            y1 = min (cy + radius) (height img - 1)
        in (x0, y0, x1 + 1, y1 + 1))"

definition avg_color :: "image \<Rightarrow> int \<times> int \<Rightarrow> int \<Rightarrow> exn + rgb" where
  "avg_color img center_xy radius =
     (case crop img (clamped_box img center_xy radius) of
        Inl e \<Rightarrow> Inl e
      | Inr region \<Rightarrow>
          let pixels = getdata region in
          if pixels = [] then Inr (0, 0, 0)
          else
            let r = real (sum_list (map (\<lambda>p. fst p) pixels)) / real (length pixels);
                g = real (sum_list (map (\<lambda>p. fst (snd p)) pixels)) / real (length pixels);
                b = real (sum_list (map (\<lambda>p. snd (snd p)) pixels)) / real (length pixels)
            in Inr (r, g, b))"

text \<open>
  The loop of \<^verbatim>\<open>rain_coverage\<close> over the pixels, with its two variables \<open>hit\<close> and
  \<open>sample_hsv\<close> as accumulators.
\<close>

fun scan_pixels :: "pixel list \<Rightarrow> nat \<Rightarrow> hsv option \<Rightarrow> exn + (nat \<times> hsv option)" where
  "scan_pixels [] hit sample_hsv = Inr (hit, sample_hsv)"
| "scan_pixels ((r, g, b) # pixels) hit sample_hsv =
     (case is_rain_color (real r, real g, real b) of
        Inl e \<Rightarrow> Inl e
      | Inr (ok, _) \<Rightarrow>
          if ok then
            (if sample_hsv = None then
               (case rgb_to_hsv_deg (real r, real g, real b) of
                  Inl e \<Rightarrow> Inl e
                | Inr t \<Rightarrow> scan_pixels pixels (hit + 1) (Some t))
             else scan_pixels pixels (hit + 1) sample_hsv)
          else scan_pixels pixels hit sample_hsv)"

text \<open>
  The debug string of \<^verbatim>\<open>rain_coverage\<close>: the literal \<^verbatim>\<open>"empty region"\<close>, or the f-string
  built from the region size, the hit count, the pixel count, the ratio and the first
  hit's HSV triple.
\<close>

datatype cov_dbg =
    EmptyRegion
  | Stats "int \<times> int" nat nat real "hsv option"

definition rain_coverage :: "image \<Rightarrow> int \<times> int \<Rightarrow> int \<Rightarrow> exn + (real \<times> cov_dbg)" where
  "rain_coverage img center_xy radius =
     (case crop img (clamped_box img center_xy radius) of
        Inl e \<Rightarrow> Inl e
      | Inr region \<Rightarrow>
          let pixels = getdata region in
          if pixels = [] then Inr (0, EmptyRegion)
          else
            (case scan_pixels pixels 0 None of
               Inl e \<Rightarrow> Inl e
             | Inr (hit, sample_hsv) \<Rightarrow>
                 let ratio = real hit / real (length pixels)
                 in Inr (ratio, Stats (region_size region) hit (length pixels) ratio sample_hsv)))"

text \<open>Whether one pixel is classified as rain, and the number of such pixels in a list.\<close>

definition pixel_is_rain :: "pixel \<Rightarrow> bool" where
  "pixel_is_rain p =
     (case p of (r, g, b) \<Rightarrow>
        (case is_rain_color (real r, real g, real b) of
           Inl e \<Rightarrow> False
         | Inr (ok, _) \<Rightarrow> ok))"

definition region_pixels :: "image \<Rightarrow> int \<times> int \<Rightarrow> int \<Rightarrow> pixel list" where
  "region_pixels img center_xy radius =
     map (getpixel img) (box_coords (clamped_box img center_xy radius))"

subsection \<open>Strings\<close>

text \<open>Python's \<^verbatim>\<open>needle in hay\<close> on strings.\<close>

fun str_in :: "string \<Rightarrow> string \<Rightarrow> bool" where
  "str_in needle [] = (needle = [])"
| "str_in needle (c # cs) = (prefix needle (c # cs) \<or> str_in needle cs)"

text \<open>
  \<^verbatim>\<open>str.strip()\<close> and \<^verbatim>\<open>str.upper()\<close> on the ASCII part of a string: the white space
  characters are the six of ASCII and the four separators 0x1C to 0x1F, and only the
  letters a to z change under \<open>upper\<close>: the upper-case letter is 32 below, which clears
  bit 5 of the code.
\<close>

definition is_space :: "char \<Rightarrow> bool" where
  "is_space c = (c = CHR '' '' \<or> (9 \<le> (of_char c :: nat) \<and> (of_char c :: nat) \<le> 13)
                 \<or> (28 \<le> (of_char c :: nat) \<and> (of_char c :: nat) \<le> 31))"

definition strip :: "string \<Rightarrow> string" where
  "strip s = rev (dropWhile is_space (rev (dropWhile is_space s)))"

definition upper_char :: "char \<Rightarrow> char" where
  "upper_char c =
     (if 97 \<le> (of_char c :: nat) \<and> (of_char c :: nat) \<le> 122
      then Char (digit0 c) (digit1 c) (digit2 c) (digit3 c) (digit4 c) False (digit6 c) (digit7 c)
      else c)"

definition upper :: "string \<Rightarrow> string" where
  "upper s = map upper_char s"

text \<open>
  \<^verbatim>\<open>int(s)\<close> on a string: white space around, an optional sign, then decimal digits, where
  single underscores may stand between digits. \<open>None\<close> is the ValueError. Only the ASCII
  digits are modelled; Python also reads the decimal digits of other scripts.
\<close>

definition is_digit :: "char \<Rightarrow> bool" where
  "is_digit c = (48 \<le> (of_char c :: nat) \<and> (of_char c :: nat) \<le> 57)"

definition digit_val :: "char \<Rightarrow> nat" where
  "digit_val c = (of_char c :: nat) - 48"

fun py_digits :: "nat \<Rightarrow> string \<Rightarrow> nat option" where
  "py_digits acc [] = Some acc"
| "py_digits acc [c] = (if is_digit c then Some (10 * acc + digit_val c) else None)"
| "py_digits acc (c # d # cs) =
     (if is_digit c then py_digits (10 * acc + digit_val c) (d # cs)
      else if c = CHR ''_'' \<and> is_digit d then py_digits acc (d # cs)
      else None)"

definition py_unsigned :: "string \<Rightarrow> nat option" where
  "py_unsigned s = (case s of [] \<Rightarrow> None | c # cs \<Rightarrow> if is_digit c then py_digits 0 s else None)"

definition py_int :: "string \<Rightarrow> int option" where
  "py_int s =
     (case strip s of
        [] \<Rightarrow> None
      | c # cs \<Rightarrow>
          if c = CHR ''-'' then map_option (\<lambda>n. - int n) (py_unsigned cs)
          else if c = CHR ''+'' then map_option int (py_unsigned cs)
          else map_option int (py_unsigned (c # cs)))"

definition txt_PM_zh :: string where
  "txt_PM_zh = [CHR 0xE4, CHR 0xB8, CHR 0x8B, CHR 0xE5, CHR 0x8D, CHR 0x88]"

definition txt_AM_zh :: string where
  "txt_AM_zh = [CHR 0xE4, CHR 0xB8, CHR 0x8A, CHR 0xE5, CHR 0x8D, CHR 0x88]"

subsection \<open>The page-query collaborator and the displayed clock\<close>

text \<open>
  The browser driver is an external collaborator. Its state is a type variable \<open>'d\<close>;
  what the code asks of it are two operations, each of which may fail with an exception
  and may change the state: looking up one of the four elements the code names by CSS
  selector (with its text and its \<^verbatim>\<open>disabled\<close> attribute), and waiting for the forward
  button to become clickable and clicking it.
\<close>

type_synonym hhmm = "int \<times> int"

datatype selector = HourText | MinuteText | AmPmText | NextButton

record element =
  text_of :: "string option"
  disabled :: "string option"

record 'd page =
  find_element :: "selector \<Rightarrow> 'd \<Rightarrow> (exn + element) \<times> 'd"
  wait_click :: "'d \<Rightarrow> (exn + unit) \<times> 'd"

text \<open>\<^verbatim>\<open>(el.text or "").strip()\<close>\<close>

definition text_or_empty :: "element \<Rightarrow> string" where
  "text_or_empty el = strip (case text_of el of None \<Rightarrow> [] | Some t \<Rightarrow> t)"

text \<open>The two tests on the AM/PM text, as the \<^verbatim>\<open>if\<close> and the \<^verbatim>\<open>elif\<close> write them.\<close>

definition pm_marker :: "string \<Rightarrow> bool" where
  "pm_marker ampm_txt = (str_in txt_PM_zh ampm_txt \<or> str_in ''PM'' (upper ampm_txt))"

definition am_marker :: "string \<Rightarrow> bool" where
  "am_marker ampm_txt = (str_in txt_AM_zh ampm_txt \<or> str_in ''AM'' (upper ampm_txt))"

text \<open>
  The body of \<^verbatim>\<open>get_map_time_tuple\<close> after the three lookups, on the three stripped
  texts: the blank check, the two \<^verbatim>\<open>int\<close> conversions and the conversion to the
  24-hour clock.
\<close>

definition clock_of_texts :: "string \<Rightarrow> string \<Rightarrow> string \<Rightarrow> exn + hhmm option" where
  "clock_of_texts hour_txt minute_txt ampm_txt =
     (if hour_txt = [] \<or> minute_txt = [] then Inr None
      else
        (case py_int hour_txt of
           None \<Rightarrow> Inl ValueError
         | Some hour \<Rightarrow>
             (case py_int minute_txt of
                None \<Rightarrow> Inl ValueError
              | Some minute \<Rightarrow>
                  if pm_marker ampm_txt then
                    Inr (Some (if hour < 12 then hour + 12 else hour, minute))
                  else if am_marker ampm_txt then
                    Inr (Some (if hour = 12 then 0 else hour, minute))
                  else Inr (Some (hour, minute)))))"

text \<open>The whole function: any exception inside the \<^verbatim>\<open>try\<close> block gives \<open>None\<close>.\<close>

definition get_map_time_tuple :: "'d page \<Rightarrow> 'd \<Rightarrow> hhmm option \<times> 'd" where
  "get_map_time_tuple P d =
     (case find_element P HourText d of
        (Inl e, d1) \<Rightarrow> (None, d1)
      | (Inr hour_el, d1) \<Rightarrow>
          (case find_element P MinuteText d1 of
             (Inl e, d2) \<Rightarrow> (None, d2)
           | (Inr minute_el, d2) \<Rightarrow>
               (case find_element P AmPmText d2 of
                  (Inl e, d3) \<Rightarrow> (None, d3)
                | (Inr ampm_el, d3) \<Rightarrow>
                    (case clock_of_texts (text_or_empty hour_el) (text_or_empty minute_el)
                            (text_or_empty ampm_el) of
                       Inl e \<Rightarrow> (None, d3)
                     | Inr r \<Rightarrow> (r, d3)))))"

definition click_next :: "'d page \<Rightarrow> 'd \<Rightarrow> (exn + string) \<times> 'd" where
  "click_next P d =
     (case find_element P NextButton d of
        (Inl e, d1) \<Rightarrow>
          (case e of
             NextButtonNotClickable b \<Rightarrow> (Inl e, d1)
           | _ \<Rightarrow> (Inl (NextButtonNotClickable ButtonNotFound), d1))
      | (Inr btn, d1) \<Rightarrow>
          if disabled btn \<noteq> None then (Inl (NextButtonNotClickable ButtonDisabled), d1)
          else
            (case wait_click P d1 of
               (Inl e, d2) \<Rightarrow> (Inl (NextButtonNotClickable ButtonNotClickable), d2)
             | (Inr u, d2) \<Rightarrow> (Inr ''minute.up'', d2)))"

subsection \<open>The alignment loop\<close>

definition hhmm_ge :: "hhmm \<Rightarrow> hhmm \<Rightarrow> bool" where
  "hhmm_ge a b = (fst a > fst b \<or> (fst a = fst b \<and> snd a \<ge> snd b))"

text \<open>The stop test of the loop, \<^verbatim>\<open>hhmm and hhmm_ge(hhmm, target_hhmm)\<close>.\<close>

definition reached :: "hhmm option \<Rightarrow> hhmm \<Rightarrow> bool" where
  "reached hhmm target_hhmm = (case hhmm of None \<Rightarrow> False | Some t \<Rightarrow> hhmm_ge t target_hhmm)"

text \<open>
  The lines the loop prints, one constructor for each \<^verbatim>\<open>print\<close>: the page time read, the
  target reached, a click with its number, the warning that the button is blocked, the
  warning that the clicks are used up.
\<close>

datatype log =
    TargetTime hhmm
  | PageTime "hhmm option"
  | Reached hhmm hhmm
  | Click string nat nat
  | WarnLatest exn
  | WarnLimit

text \<open>
  The \<^verbatim>\<open>for i in range(max_clicks)\<close> loop, by recursion on the number of iterations
  left; \<open>i + 1\<close> is \<open>max_clicks - n\<close> when \<open>n\<close> iterations are left after this one. The
  result is what the call raises or returns, the lines printed, and the driver's state.
\<close>

fun seek_loop ::
    "'d page \<Rightarrow> hhmm \<Rightarrow> nat \<Rightarrow> nat \<Rightarrow> 'd \<Rightarrow> (exn + unit) \<times> log list \<times> 'd" where
  "seek_loop P target_hhmm max_clicks 0 d = (Inr (), [WarnLimit], d)"
| "seek_loop P target_hhmm max_clicks (Suc n) d =
     (case get_map_time_tuple P d of
        (hhmm, d1) \<Rightarrow>
          if reached hhmm target_hhmm then
            (Inr (), [PageTime hhmm, Reached (the hhmm) target_hhmm], d1)
          else
            (case click_next P d1 of
               (Inl e, d2) \<Rightarrow>
                 (case e of
                    NextButtonNotClickable b \<Rightarrow> (Inr (), [PageTime hhmm, WarnLatest e], d2)
                  | _ \<Rightarrow> (Inl e, [PageTime hhmm], d2))
             | (Inr btn_name, d2) \<Rightarrow>
                 (case seek_loop P target_hhmm max_clicks n d2 of
                    (res, lg, d3) \<Rightarrow>
                      (res, PageTime hhmm # Click btn_name (max_clicks - n) max_clicks # lg, d3))))"









subsection \<open>The detection decision of \<open>main\<close>\<close>

datatype event = Print string | Post string string

text \<open>
  \<^verbatim>\<open>requests.post\<close> followed by \<^verbatim>\<open>raise_for_status\<close> is the argument \<open>post\<close>: the
  notification sink either accepts the payload or fails.
\<close>

definition txt_warn_webhook :: string where
  "txt_warn_webhook =
     ''[WARN] WEBHOOK '' @
     [CHR 0xE4, CHR 0xB8, CHR 0xBA, CHR 0xE7, CHR 0xA9, CHR 0xBA,
      CHR 0xEF, CHR 0xBC, CHR 0x8C, CHR 0xE5, CHR 0x8F, CHR 0xAA,
      CHR 0xE6, CHR 0x89, CHR 0x93, CHR 0xE5, CHR 0x8D, CHR 0xB0,
      CHR 0xE4, CHR 0xB8, CHR 0x8D, CHR 0xE5, CHR 0x8F, CHR 0x91,
      CHR 0xE9, CHR 0x80, CHR 0x81, CHR 0xEF, CHR 0xBC, CHR 0x9A]"

definition send_wecom_text ::
    "(string \<Rightarrow> string \<Rightarrow> exn + unit) \<Rightarrow> string \<Rightarrow> string \<Rightarrow> (exn + unit) \<times> event list" where
  "send_wecom_text post webhook content =
     (if webhook = [] then (Inr (), [Print (txt_warn_webhook @ '' '' @ content)])
      else (post webhook content, [Post webhook content]))"

text \<open>The marker of the detection message, and the text before the debug line in it.\<close>

definition txt_may_rain :: string where
  "txt_may_rain =
     [CHR 0xE5, CHR 0x8F, CHR 0xAF, CHR 0xE8, CHR 0x83, CHR 0xBD,
      CHR 0xE8, CHR 0xA6, CHR 0x81, CHR 0xE4, CHR 0xB8, CHR 0x8B,
      CHR 0xE9, CHR 0x9B, CHR 0xA8]"

definition txt_msg_head :: string where
  "txt_msg_head =
     [CHR 0xE2, CHR 0x9A, CHR 0xA0, CHR 0xEF, CHR 0xB8, CHR 0x8F,
      CHR 0x20] @ txt_may_rain @
     [CHR 0xEF, CHR 0xBC, CHR 0x9A, CHR 0xE4, CHR 0xBD, CHR 0xA0,
      CHR 0xE5, CHR 0xAE, CHR 0xB6, CHR 0xE9, CHR 0x99, CHR 0x84,
      CHR 0xE8, CHR 0xBF, CHR 0x91, CHR 0xE6, CHR 0xA3, CHR 0x80,
      CHR 0xE6, CHR 0xB5, CHR 0x8B, CHR 0xE5, CHR 0x88, CHR 0xB0,
      CHR 0xE9, CHR 0x9B, CHR 0xB7, CHR 0xE8, CHR 0xBE, CHR 0xBE,
      CHR 0xE5, CHR 0x9B, CHR 0x9E, CHR 0xE6, CHR 0xB3, CHR 0xA2,
      CHR 0xE8, CHR 0x89, CHR 0xB2, CHR 0xE5, CHR 0xB8, CHR 0xA6,
      CHR 0xE8, CHR 0xA6, CHR 0x86, CHR 0xE7, CHR 0x9B, CHR 0x96,
      CHR 0xE3, CHR 0x80, CHR 0x82]"

definition txt_step6 :: string where
  "txt_step6 =
     ''[6/6] '' @
     [CHR 0xE7, CHR 0x94, CHR 0x9F, CHR 0xE6, CHR 0x88, CHR 0x90,
      CHR 0xE7, CHR 0xBB, CHR 0x93, CHR 0xE6, CHR 0x9E, CHR 0x9C] @ ''...''"

definition txt_no_rain :: string where
  "txt_no_rain =
     [CHR 0xE6, CHR 0x9C, CHR 0xAA, CHR 0xE6, CHR 0xA3, CHR 0x80,
      CHR 0xE6, CHR 0xB5, CHR 0x8B, CHR 0xE5, CHR 0x88, CHR 0xB0,
      CHR 0xE9, CHR 0x9B, CHR 0xB7, CHR 0xE8, CHR 0xBE, CHR 0xBE,
      CHR 0xE5, CHR 0x9B, CHR 0x9E, CHR 0xE6, CHR 0xB3, CHR 0xA2,
      CHR 0xE8, CHR 0x89, CHR 0xB2, CHR 0xE5, CHR 0xB8, CHR 0xA6,
      CHR 0xE8, CHR 0xA6, CHR 0x86, CHR 0xE7, CHR 0x9B, CHR 0x96,
      CHR 0xEF, CHR 0xBC, CHR 0x88, CHR 0xE4, CHR 0xBB, CHR 0x85,
      CHR 0xE4, CHR 0xBE, CHR 0x9B, CHR 0xE5, CHR 0x8F, CHR 0x82,
      CHR 0xE8, CHR 0x80, CHR 0x83, CHR 0xEF, CHR 0xBC, CHR 0x89,
      CHR 0xE3, CHR 0x80, CHR 0x82]"

record viewport =
  vp_width :: int
  vp_height :: int

definition Viewport :: viewport where
  "Viewport = \<lparr>vp_width = 1280, vp_height = 720\<rparr>"

text \<open>The detection message, \<^verbatim>\<open>msg\<close> in \<open>main\<close>: the head, the debug line and the URL.\<close>

definition detection_msg :: "string \<Rightarrow> string \<Rightarrow> string" where
  "detection_msg debug_msg url = txt_msg_head @ [CHR 0x0A] @ debug_msg @ [CHR 0x0A] @ url"

text \<open>
  Lines 399 to 417 of \<open>main\<close>: the decision on the coverage and the notification. The
  debug line, an f-string over the sample point, the averaged colour, the score, the
  thresholds and the coverage, is the argument \<open>debug_msg\<close>.
\<close>

definition main_report ::
    "(string \<Rightarrow> string \<Rightarrow> exn + unit) \<Rightarrow> string \<Rightarrow> string \<Rightarrow> string \<Rightarrow> real
       \<Rightarrow> (exn + unit) \<times> event list" where
  "main_report post webhook url debug_msg coverage =
     (let ok = (coverage \<ge> 0.10) in
      if ok then
        (let msg = detection_msg debug_msg url in
         case send_wecom_text post webhook msg of
           (res, evs) \<Rightarrow>
             (res, [Print debug_msg, Print txt_step6, Print ''[RESULT] RAIN_DETECTED'',
                    Print msg] @ evs))
      else
        (Inr (), [Print debug_msg, Print txt_step6, Print ''[RESULT] NO_RAIN_DETECTED'',
                  Print txt_no_rain]))"

text \<open>
  Lines 392 to 398 of \<open>main\<close>, then the report: the sample point is the centre of the
  viewport, the averaged colour and its score are computed for the debug line, and the
  coverage is computed for the decision. \<open>fmt\<close> renders the debug line.
\<close>

definition main_sample ::
    "(int \<times> int \<Rightarrow> rgb \<Rightarrow> real \<Rightarrow> real \<Rightarrow> cov_dbg \<Rightarrow> string)
       \<Rightarrow> (string \<Rightarrow> string \<Rightarrow> exn + unit) \<Rightarrow> string \<Rightarrow> string \<Rightarrow> viewport \<Rightarrow> image
       \<Rightarrow> (exn + unit) \<times> event list" where
  "main_sample fmt post webhook url vp img =
     (let sample_xy = (vp_width vp div 2, vp_height vp div 2) in
      case avg_color img sample_xy 7 of
        Inl e \<Rightarrow> (Inl e, [])
      | Inr rgb \<Rightarrow>
          let score = rain_score rgb in
          (case rain_coverage img sample_xy 12 of
             Inl e \<Rightarrow> (Inl e, [])
           | Inr (coverage, cov_dbg) \<Rightarrow>
               main_report post webhook url (fmt sample_xy rgb score coverage cov_dbg)
                 coverage))"

text \<open>The notification calls among the events: the payloads handed to the sink.\<close>

fun posted :: "event list \<Rightarrow> string list" where
  "posted [] = []"
| "posted (Print s # evs) = posted evs"
| "posted (Post w c # evs) = c # posted evs"

subsection \<open>The data-model invariant of a time of day\<close>

definition valid_time_of_day :: "hhmm \<Rightarrow> bool" where
  "valid_time_of_day t = (0 \<le> fst t \<and> fst t \<le> 23 \<and> 0 \<le> snd t \<and> snd t \<le> 59)"

subsection \<open>Test inputs\<close>

text \<open>
  A page stub whose clock always shows the same three texts. Its state counts the clicks
  done; with a limit \<open>Some k\<close> the forward button is disabled once \<open>k\<close> clicks are done,
  with \<open>None\<close> it never is.
\<close>

definition clock_element :: "string \<Rightarrow> element" where
  "clock_element t = \<lparr>text_of = Some t, disabled = None\<rparr>"

definition stub_page :: "string \<Rightarrow> string \<Rightarrow> string \<Rightarrow> nat option \<Rightarrow> nat page" where
  "stub_page hour_txt minute_txt ampm_txt limit =
     \<lparr>find_element = (\<lambda>sel d.
          (Inr (case sel of
                  HourText \<Rightarrow> clock_element hour_txt
                | MinuteText \<Rightarrow> clock_element minute_txt
                | AmPmText \<Rightarrow> clock_element ampm_txt
                | NextButton \<Rightarrow>
                    \<lparr>text_of = None,
                     disabled = (if (case limit of None \<Rightarrow> False | Some k \<Rightarrow> k \<le> d)
                                 then Some ''true'' else None)\<rparr>), d)),
      wait_click = (\<lambda>d. (Inr (), Suc d))\<rparr>"

text \<open>A two-pixel image, one red and one cyan pixel: its mean colour is a grey.\<close>

definition two_tone :: image where
  "two_tone = \<lparr>width = 2, height = 1,
                getpixel = (\<lambda>xy. if fst xy = 0 then (255, 0, 0) else (0, 255, 255))\<rparr>"

text \<open>A row of twenty pixels, the first \<open>k\<close> blue and the others grey.\<close>

definition blue_row :: "int \<Rightarrow> image" where
  "blue_row k = \<lparr>width = 20, height = 1,
                 getpixel = (\<lambda>xy. if fst xy < k then (0, 0, 255) else (128, 128, 128))\<rparr>"

text \<open>An image of one colour, and a black screenshot of 600 by 400 pixels.\<close>

definition plain :: "int \<Rightarrow> int \<Rightarrow> pixel \<Rightarrow> image" where
  "plain w h p = \<lparr>width = w, height = h, getpixel = (\<lambda>xy. p)\<rparr>"

definition narrow_shot :: image where
  "narrow_shot = plain 600 400 (0, 0, 0)"

section \<open>Properties\<close>

subsection \<open>Colour classifier\<close>

lemma hue_in_ranges_iff:
  "hue_in_ranges h ranges = (\<exists>rng \<in> set ranges. in_hue_range h rng)"
proof (induction ranges)
  case Nil
  show ?case by simp
next
  case (Cons rng ranges)
  obtain a b where rng: "rng = (a, b)" by (cases rng)
  show ?case
    unfolding rng using Cons.IH by (simp add: in_hue_range_def)
qed

lemma hsv_magenta: "rgb_to_hsv_deg (255, 0, 255) = Inr (300, 1, 1)"
  by (simp add: rgb_to_hsv_deg_def rgb_to_hsv_def Let_def frac_def)

lemma hsv_350: "rgb_to_hsv_deg (255, 15, 55) = Inr (350, 16 / 17, 1)"
  by (simp add: rgb_to_hsv_deg_def rgb_to_hsv_def Let_def frac_def)

lemma hsv_100: "rgb_to_hsv_deg (95, 255, 15) = Inr (100, 16 / 17, 1)"
  by (simp add: rgb_to_hsv_deg_def rgb_to_hsv_def Let_def frac_def)

lemma hsv_red: "rgb_to_hsv_deg (255, 0, 0) = Inr (0, 1, 1)"
  by (simp add: rgb_to_hsv_deg_def rgb_to_hsv_def Let_def frac_def)

lemma hsv_cyan: "rgb_to_hsv_deg (0, 255, 255) = Inr (180, 1, 1)"
  by (simp add: rgb_to_hsv_deg_def rgb_to_hsv_def Let_def frac_def)

lemma hsv_blue: "rgb_to_hsv_deg (0, 0, 255) = Inr (240, 1, 1)"
  by (simp add: rgb_to_hsv_deg_def rgb_to_hsv_def Let_def frac_def)

lemma hsv_pale_red: "rgb_to_hsv_deg (200, 150, 150) = Inr (0, 1 / 4, 40 / 51)"
  by (simp add: rgb_to_hsv_deg_def rgb_to_hsv_def Let_def frac_def)

text \<open>
  Claim C2. When the saturation computed for a colour is at least the threshold,
  \<open>is_rain_color\<close> answers rain exactly when the hue lies in one of the configured
  ranges, a range \<open>(low, high)\<close> with \<open>low \<le> high\<close> being the closed interval and one
  with \<open>low > high\<close> matching \<open>hue \<ge> low\<close> or \<open>hue \<le> high\<close>. This holds for every
  threshold and every list of ranges, so for the defaults. With the default ranges hue
  300 is accepted and hues 350 and 100 are rejected: magenta \<open>(255, 0, 255)\<close> has hue
  300, \<open>(255, 15, 55)\<close> has hue 350 and \<open>(95, 255, 15)\<close> has hue 100, all three with a
  saturation above the threshold.
\<close>

theorem is_rain_color_hue_ranges:
  "(rgb_to_hsv_deg rgb = Inr (h, s, v) \<and> threshold \<le> s \<longrightarrow>
      is_rain_color_with threshold ranges rgb =
        Inr (if \<exists>rng \<in> set ranges. in_hue_range h rng
             then (True, HitBand (h, s, v)) else (False, HueOutside (h, s, v))))
   \<and> (rgb_to_hsv_deg rgb = Inr (h, s, v) \<and> SATURATION_THRESHOLD \<le> s \<longrightarrow>
      map_sum id fst (is_rain_color rgb) =
        Inr (\<exists>rng \<in> set HUE_RANGES_DEG. in_hue_range h rng))
   \<and> hue_in_ranges 300 HUE_RANGES_DEG
   \<and> \<not> hue_in_ranges 350 HUE_RANGES_DEG
   \<and> \<not> hue_in_ranges 100 HUE_RANGES_DEG
   \<and> is_rain_color (255, 0, 255) = Inr (True, HitBand (300, 1, 1))
   \<and> is_rain_color (255, 15, 55) = Inr (False, HueOutside (350, 16 / 17, 1))
   \<and> is_rain_color (95, 255, 15) = Inr (False, HueOutside (100, 16 / 17, 1))"
  by (simp add: is_rain_color_def is_rain_color_with_def hue_in_ranges_iff hsv_magenta hsv_350
        hsv_100 SATURATION_THRESHOLD_def HUE_RANGES_DEG_def in_hue_range_def)

theorem is_rain_color_hue_ranges_witness:
  "rgb_to_hsv_deg (255, 0, 255) = Inr (300, 1, 1) \<and> (0.26 :: real) \<le> 1
   \<and> SATURATION_THRESHOLD \<le> 1
   \<and> (\<exists>rng \<in> set [(170, 260), (0, 60), (260, 330)]. in_hue_range 300 rng)
   \<and> is_rain_color_with 0.26 [(170, 260), (0, 60), (260, 330)] (255, 0, 255) =
       Inr (True, HitBand (300, 1, 1))"
  using is_rain_color_hue_ranges [where rgb = "(255, 0, 255)" and h = 300 and s = 1 and v = 1
      and threshold = "0.26" and ranges = "[(170, 260), (0, 60), (260, 330)]"]
  by (simp add: hsv_magenta in_hue_range_def SATURATION_THRESHOLD_def)

text \<open>
  Claim C3. When the saturation computed for a colour is strictly below the threshold,
  \<open>is_rain_color\<close> answers not-rain by the saturation branch, whatever the hue and
  whatever the list of hue ranges. A colour with \<open>r = g = b\<close> has saturation 0 and hue
  0 by convention, and is rejected by that branch.
\<close>

theorem is_rain_color_low_saturation:
  "(rgb_to_hsv_deg rgb = Inr (h, s, v) \<and> s < threshold \<longrightarrow>
      is_rain_color_with threshold ranges rgb = Inr (False, SatBelow (h, s, v)))
   \<and> (rgb_to_hsv_deg rgb = Inr (h, s, v) \<and> s < SATURATION_THRESHOLD \<longrightarrow>
      is_rain_color rgb = Inr (False, SatBelow (h, s, v)))
   \<and> rgb_to_hsv_deg (c, c, c) = Inr (0, 0, c / 255)
   \<and> is_rain_color_with SATURATION_THRESHOLD ranges (c, c, c) =
       Inr (False, SatBelow (0, 0, c / 255))
   \<and> is_rain_color (c, c, c) = Inr (False, SatBelow (0, 0, c / 255))"
  by (simp add: is_rain_color_def is_rain_color_with_def rgb_to_hsv_deg_def rgb_to_hsv_def
        SATURATION_THRESHOLD_def)

theorem is_rain_color_low_saturation_witness:
  "rgb_to_hsv_deg (200, 150, 150) = Inr (0, 1 / 4, 40 / 51) \<and> (1 / 4 :: real) < 0.26
   \<and> (1 / 4 :: real) < SATURATION_THRESHOLD
   \<and> in_hue_range 0 (0, 60)
   \<and> is_rain_color_with 0.26 [(0, 60)] (200, 150, 150) = Inr (False, SatBelow (0, 1 / 4, 40 / 51))
   \<and> is_rain_color (200, 150, 150) = Inr (False, SatBelow (0, 1 / 4, 40 / 51))"
  using is_rain_color_low_saturation [where rgb = "(200, 150, 150)" and h = 0 and s = "1 / 4"
      and v = "40 / 51" and threshold = "0.26" and ranges = "[(0, 60)]"]
  by (simp add: hsv_pale_red in_hue_range_def SATURATION_THRESHOLD_def)


subsection \<open>Region sampler\<close>

lemma set_box_coords:
  "set (box_coords (l, u, r, lo)) = {l..r - 1} \<times> {u..lo - 1}"
  by (auto simp: box_coords_def)

lemma length_box_coords:
  "length (box_coords (l, u, r, lo)) = nat (r - l) * nat (lo - u)"
  by (simp add: box_coords_def length_concat comp_def sum_list_triv)

text \<open>Every coordinate of the clamped box lies inside the image.\<close>

lemma clamped_box_in_bounds:
  assumes "xy \<in> set (box_coords (clamped_box img center_xy radius))"
  shows "in_bounds img xy"
proof -
  obtain cx cy where c: "center_xy = (cx, cy)" by (cases center_xy)
  obtain x y where xy: "xy = (x, y)" by (cases xy)
  from assms show ?thesis
    unfolding c xy by (auto simp: clamped_box_def Let_def set_box_coords in_bounds_def)
qed

text \<open>On channels that are not negative the conversion to HSV does not divide by zero.\<close>

lemma rgb_to_hsv_nonneg:
  assumes "0 \<le> r" "0 \<le> g" "0 \<le> b"
  shows "\<exists>t. rgb_to_hsv r g b = Inr t"
proof -
  define mx where "mx = max (max r g) b"
  define mn where "mn = min (min r g) b"
  have "0 \<le> mn" using assms by (simp add: mn_def)
  moreover have "mn \<le> mx" by (simp add: mn_def mx_def min_def max_def)
  ultimately have imp: "mx = 0 \<Longrightarrow> mn = mx" by linarith
  have eq: "rgb_to_hsv r g b =
     (if mn = mx then Inr (0, 0, mx)
      else if mx = 0 then Inl ZeroDivisionError
      else Inr (frac ((if r = mx then (mx - b) / (mx - mn) - (mx - g) / (mx - mn)
                       else if g = mx then 2 + (mx - r) / (mx - mn) - (mx - b) / (mx - mn)
                       else 4 + (mx - g) / (mx - mn) - (mx - r) / (mx - mn)) / 6),
                (mx - mn) / mx, mx))"
    unfolding rgb_to_hsv_def Let_def mx_def mn_def by (rule refl)
  show ?thesis
  proof (cases "mn = mx")
    case True
    then show ?thesis unfolding eq by simp
  next
    case False
    then have "mx \<noteq> 0" using imp by blast
    then show ?thesis unfolding eq using False by simp
  qed
qed

lemma rgb_to_hsv_deg_pixel:
  "\<exists>t. rgb_to_hsv_deg (real r, real g, real b) = Inr t"
proof -
  obtain t where "rgb_to_hsv (real r / 255) (real g / 255) (real b / 255) = Inr t"
    using rgb_to_hsv_nonneg[of "real r / 255" "real g / 255" "real b / 255"] by auto
  then show ?thesis
    by (cases t) (simp add: rgb_to_hsv_deg_def)
qed

lemma is_rain_color_pixel:
  "\<exists>why. is_rain_color (real r, real g, real b) = Inr (pixel_is_rain (r, g, b), why)"
proof -
  obtain h s v where "rgb_to_hsv_deg (real r, real g, real b) = Inr (h, s, v)"
    using rgb_to_hsv_deg_pixel[of r g b] by (metis prod_cases3)
  then show ?thesis
    by (simp add: pixel_is_rain_def is_rain_color_def is_rain_color_with_def)
qed

text \<open>The loop never raises, and adds one to \<open>hit\<close> for every pixel classified as rain.\<close>

lemma scan_pixels_count:
  "\<exists>sample'. scan_pixels pixels hit sample_hsv =
      Inr (hit + length (filter pixel_is_rain pixels), sample')"
proof (induction pixels arbitrary: hit sample_hsv)
  case Nil
  show ?case by simp
next
  case (Cons p pixels)
  obtain r g b where p: "p = (r, g, b)" by (cases p)
  obtain why where rc: "is_rain_color (real r, real g, real b) = Inr (pixel_is_rain (r, g, b), why)"
    using is_rain_color_pixel by blast
  obtain t where t: "rgb_to_hsv_deg (real r, real g, real b) = Inr t"
    using rgb_to_hsv_deg_pixel by blast
  show ?case
  proof (cases "pixel_is_rain (r, g, b)")
    case False
    then show ?thesis using Cons.IH[of hit sample_hsv] by (simp add: p rc)
  next
    case True
    show ?thesis
    proof (cases sample_hsv)
      case None
      then show ?thesis using True Cons.IH[of "hit + 1" "Some t"] by (simp add: p rc t)
    next
      case (Some u)
      then show ?thesis using True Cons.IH[of "hit + 1" sample_hsv] by (simp add: p rc)
    qed
  qed
qed

text \<open>
  When the clamped box is not inverted, crop returns the pixels of the image at the
  coordinates of the box: no coordinate is read outside the image.
\<close>

lemma crop_clamped:
  assumes "clamped_box img center_xy radius = (x0, y0, x1, y1)" "x0 \<le> x1" "y0 \<le> y1"
  shows "crop img (clamped_box img center_xy radius) =
           Inr \<lparr>region_size = (x1 - x0, y1 - y0), getdata = region_pixels img center_xy radius\<rparr>"
proof -
  have "map (\<lambda>xy. if in_bounds img xy then getpixel img xy else (0, 0, 0))
          (box_coords (clamped_box img center_xy radius)) =
        map (getpixel img) (box_coords (clamped_box img center_xy radius))"
    by (rule map_cong) (auto simp: clamped_box_in_bounds)
  then show ?thesis using assms by (simp add: crop_def region_pixels_def)
qed

lemma length_region_pixels:
  assumes "clamped_box img center_xy radius = (x0, y0, x1, y1)"
  shows "length (region_pixels img center_xy radius) = nat (x1 - x0) * nat (y1 - y0)"
  using assms by (simp add: region_pixels_def length_box_coords)

lemma rain_coverage_nonempty:
  assumes "clamped_box img center_xy radius = (x0, y0, x1, y1)" "x0 < x1" "y0 < y1"
  shows "\<exists>sample. rain_coverage img center_xy radius =
      Inr (real (length (filter pixel_is_rain (region_pixels img center_xy radius)))
             / real (length (region_pixels img center_xy radius)),
           Stats (x1 - x0, y1 - y0)
             (length (filter pixel_is_rain (region_pixels img center_xy radius)))
             (length (region_pixels img center_xy radius))
             (real (length (filter pixel_is_rain (region_pixels img center_xy radius)))
                / real (length (region_pixels img center_xy radius)))
             sample)"
proof -
  let ?ps = "region_pixels img center_xy radius"
  have len: "length ?ps = nat (x1 - x0) * nat (y1 - y0)"
    using assms(1) by (rule length_region_pixels)
  have "0 < nat (x1 - x0) * nat (y1 - y0)" using assms(2,3) by simp
  then have ne: "?ps \<noteq> []" using len by auto
  obtain sample where sc: "scan_pixels ?ps 0 None = Inr (length (filter pixel_is_rain ?ps), sample)"
    using scan_pixels_count[of ?ps 0 None] by auto
  have cr: "crop img (clamped_box img center_xy radius) =
           Inr \<lparr>region_size = (x1 - x0, y1 - y0), getdata = ?ps\<rparr>"
    using assms by (intro crop_clamped) auto
  show ?thesis
    by (rule exI[of _ sample]) (simp add: rain_coverage_def cr ne sc Let_def)
qed

text \<open>
  A box that is empty without being inverted (its right equal to its left, or its lower
  equal to its upper) reaches the guard for the empty pixel list in both functions.
\<close>

lemma region_pixels_empty:
  assumes "clamped_box img center_xy radius = (x0, y0, x1, y1)" "x0 = x1 \<or> y0 = y1"
  shows "region_pixels img center_xy radius = []"
proof -
  have "length (region_pixels img center_xy radius) = 0"
    using assms length_region_pixels[OF assms(1)] by auto
  then show ?thesis by simp
qed

lemma rain_coverage_empty:
  assumes "clamped_box img center_xy radius = (x0, y0, x1, y1)" "x0 \<le> x1" "y0 \<le> y1"
    "x0 = x1 \<or> y0 = y1"
  shows "rain_coverage img center_xy radius = Inr (0, EmptyRegion)"
  using crop_clamped[OF assms(1,2,3)] region_pixels_empty[OF assms(1,4)]
  by (simp add: rain_coverage_def)

lemma avg_color_empty:
  assumes "clamped_box img center_xy radius = (x0, y0, x1, y1)" "x0 \<le> x1" "y0 \<le> y1"
    "x0 = x1 \<or> y0 = y1"
  shows "avg_color img center_xy radius = Inr (0, 0, 0)"
  using crop_clamped[OF assms(1,2,3)] region_pixels_empty[OF assms(1,4)]
  by (simp add: avg_color_def)

text \<open>An inverted box is refused by crop, before either guard is reached.\<close>

lemma crop_inverted:
  assumes "clamped_box img center_xy radius = (x0, y0, x1, y1)" "x1 < x0 \<or> y1 < y0"
  shows "crop img (clamped_box img center_xy radius) = Inl ValueError"
  using assms by (auto simp: crop_def)

lemma rain_coverage_inverted:
  assumes "clamped_box img center_xy radius = (x0, y0, x1, y1)" "x1 < x0 \<or> y1 < y0"
  shows "rain_coverage img center_xy radius = Inl ValueError"
  using crop_inverted[OF assms] by (simp add: rain_coverage_def)

lemma avg_color_inverted:
  assumes "clamped_box img center_xy radius = (x0, y0, x1, y1)" "x1 < x0 \<or> y1 < y0"
  shows "avg_color img center_xy radius = Inl ValueError"
  using crop_inverted[OF assms] by (simp add: avg_color_def)

text \<open>Whenever \<open>rain_coverage\<close> returns, its ratio lies between 0 and 1.\<close>

lemma rain_coverage_ratio_bounds:
  assumes "rain_coverage img center_xy radius = Inr (ratio, dbg)"
  shows "0 \<le> ratio \<and> ratio \<le> 1"
proof -
  obtain x0 y0 x1 y1 where box: "clamped_box img center_xy radius = (x0, y0, x1, y1)"
    by (cases "clamped_box img center_xy radius")
  let ?ps = "region_pixels img center_xy radius"
  consider "x1 < x0 \<or> y1 < y0" | "x0 \<le> x1" "y0 \<le> y1" "x0 = x1 \<or> y0 = y1" | "x0 < x1" "y0 < y1"
    by linarith
  then show ?thesis
  proof cases
    case 1
    then show ?thesis using rain_coverage_inverted[OF box] assms by simp
  next
    case 2
    then show ?thesis using rain_coverage_empty[OF box] assms by simp
  next
    case 3
    have "ratio = real (length (filter pixel_is_rain ?ps)) / real (length ?ps)"
      using rain_coverage_nonempty[OF box 3] assms by auto
    moreover have "length (filter pixel_is_rain ?ps) \<le> length ?ps" by (rule length_filter_le)
    ultimately show ?thesis by (simp add: divide_le_eq_1)
  qed
qed

lemma two_tone_crop: "crop two_tone (clamped_box two_tone (0, 0) 1) =
   Inr \<lparr>region_size = (2, 1), getdata = [(255, 0, 0), (0, 255, 255)]\<rparr>"
  by (simp add: crop_def clamped_box_def box_coords_def two_tone_def upto.simps in_bounds_def)

lemma two_tone_pixels: "region_pixels two_tone (0, 0) 1 = [(255, 0, 0), (0, 255, 255)]"
  by (simp add: region_pixels_def clamped_box_def box_coords_def two_tone_def upto.simps)

lemma rain_red: "is_rain_color (255, 0, 0) = Inr (True, HitBand (0, 1, 1))"
  by (simp add: is_rain_color_def is_rain_color_with_def hsv_red SATURATION_THRESHOLD_def
        HUE_RANGES_DEG_def)

lemma rain_cyan: "is_rain_color (0, 255, 255) = Inr (True, HitBand (180, 1, 1))"
  by (simp add: is_rain_color_def is_rain_color_with_def hsv_cyan SATURATION_THRESHOLD_def
        HUE_RANGES_DEG_def)

lemma two_tone_coverage:
  "rain_coverage two_tone (0, 0) 1 = Inr (1, Stats (2, 1) 2 2 1 (Some (0, 1, 1)))"
  by (simp add: rain_coverage_def two_tone_crop rain_red rain_cyan hsv_red)

lemma two_tone_avg: "avg_color two_tone (0, 0) 1 = Inr (255 / 2, 255 / 2, 255 / 2)"
  by (simp add: avg_color_def two_tone_crop)

lemma grey_not_rain:
  "is_rain_color (255 / 2, 255 / 2, 255 / 2) = Inr (False, SatBelow (0, 0, 1 / 2))"
  by (simp add: is_rain_color_def is_rain_color_with_def rgb_to_hsv_deg_def rgb_to_hsv_def
        SATURATION_THRESHOLD_def)

text \<open>
  Claim C6. When the clamped region is not empty, \<open>rain_coverage\<close> returns the number of
  pixels of the region that \<open>is_rain_color\<close> classifies as rain, divided by the number of
  pixels of the region. The ratio lies in \<open>[0, 1]\<close>, is 1 when every pixel is classified
  as rain and 0 when none is. The pixels are classified one by one, not their mean: in
  the image \<open>two_tone\<close> both pixels are rain and the coverage is 1, while the mean colour
  is a grey that is not rain.
\<close>

theorem rain_coverage_ratio:
  "(clamped_box img center_xy radius = (left, up, right, low) \<and> left < right \<and> up < low \<longrightarrow>
     (\<exists>ratio dbg.
        rain_coverage img center_xy radius = Inr (ratio, dbg)
        \<and> ratio = real (length (filter pixel_is_rain (region_pixels img center_xy radius)))
                    / real (length (region_pixels img center_xy radius))
        \<and> 0 \<le> ratio \<and> ratio \<le> 1
        \<and> ((\<forall>p \<in> set (region_pixels img center_xy radius). pixel_is_rain p) \<longrightarrow> ratio = 1)
        \<and> ((\<forall>p \<in> set (region_pixels img center_xy radius). \<not> pixel_is_rain p) \<longrightarrow> ratio = 0)))
   \<and> rain_coverage two_tone (0, 0) 1 = Inr (1, Stats (2, 1) 2 2 1 (Some (0, 1, 1)))
   \<and> avg_color two_tone (0, 0) 1 = Inr (255 / 2, 255 / 2, 255 / 2)
   \<and> is_rain_color (255 / 2, 255 / 2, 255 / 2) = Inr (False, SatBelow (0, 0, 1 / 2))"
proof -
  let ?ps = "region_pixels img center_xy radius"
  let ?hit = "length (filter pixel_is_rain ?ps)"
  have gen: "\<exists>ratio dbg.
        rain_coverage img center_xy radius = Inr (ratio, dbg)
        \<and> ratio = real ?hit / real (length ?ps)
        \<and> 0 \<le> ratio \<and> ratio \<le> 1
        \<and> ((\<forall>p \<in> set ?ps. pixel_is_rain p) \<longrightarrow> ratio = 1)
        \<and> ((\<forall>p \<in> set ?ps. \<not> pixel_is_rain p) \<longrightarrow> ratio = 0)"
    if box: "clamped_box img center_xy radius = (left, up, right, low)"
      and ne: "left < right" "up < low"
  proof -
    obtain sample where rc: "rain_coverage img center_xy radius =
        Inr (real ?hit / real (length ?ps),
             Stats (right - left, low - up) ?hit (length ?ps) (real ?hit / real (length ?ps)) sample)"
      using rain_coverage_nonempty[OF box ne] by blast
    have len: "length ?ps = nat (right - left) * nat (low - up)"
      using box by (rule length_region_pixels)
    have pos: "0 < length ?ps" using ne len by simp
    have le: "?hit \<le> length ?ps" by (rule length_filter_le)
    have r1: "real ?hit / real (length ?ps) \<le> 1" using pos le by simp
    have all: "real ?hit / real (length ?ps) = 1" if "\<forall>p \<in> set ?ps. pixel_is_rain p"
    proof -
      have "filter pixel_is_rain ?ps = ?ps" using that by (simp add: filter_id_conv)
      then show ?thesis using pos by simp
    qed
    have none: "real ?hit / real (length ?ps) = 0" if "\<forall>p \<in> set ?ps. \<not> pixel_is_rain p"
    proof -
      have "filter pixel_is_rain ?ps = []" using that by (simp add: filter_empty_conv)
      then show ?thesis by simp
    qed
    show ?thesis using rc r1 all none by simp
  qed
  show ?thesis using gen two_tone_coverage two_tone_avg grey_not_rain by blast
qed

theorem rain_coverage_ratio_witness:
  "clamped_box two_tone (0, 0) 1 = (0, 0, 2, 1) \<and> (0 :: int) < 2 \<and> (0 :: int) < 1
   \<and> region_pixels two_tone (0, 0) 1 = [(255, 0, 0), (0, 255, 255)]
   \<and> pixel_is_rain (255, 0, 0) \<and> pixel_is_rain (0, 255, 255)
   \<and> (\<exists>dbg. rain_coverage two_tone (0, 0) 1 = Inr (1, dbg))"
proof -
  have box: "clamped_box two_tone (0, 0) 1 = (0, 0, 2, 1)"
    by (simp add: clamped_box_def two_tone_def)
  have rain: "pixel_is_rain (255, 0, 0)" "pixel_is_rain (0, 255, 255)"
    by (simp_all add: pixel_is_rain_def rain_red rain_cyan)
  then have all: "\<forall>p \<in> set (region_pixels two_tone (0, 0) 1). pixel_is_rain p"
    by (simp add: two_tone_pixels)
  have "\<exists>dbg. rain_coverage two_tone (0, 0) 1 = Inr (1, dbg)"
    using rain_coverage_ratio [where img = two_tone and center_xy = "(0, 0)" and radius = 1
        and left = 0 and up = 0 and right = 2 and low = 1] box all
    by auto
  then show ?thesis using box rain by (simp add: two_tone_pixels)
qed

text \<open>
  Claim C7, at a screenshot narrower than the sample point. With the image 600 pixels
  wide and the centre at \<open>x = 640\<close>, the clamped box has its right edge left of its
  left edge: the clamped region holds no pixel, crop refuses the box, and
  \<open>rain_coverage\<close> raises ValueError instead of returning the ratio 0 with the reason
  for the empty region.
\<close>

theorem rain_coverage_narrow_shot_raises:
  "clamped_box narrow_shot (640, 360) 12 = (628, 348, 600, 373)
   \<and> rain_coverage narrow_shot (640, 360) 12 = Inl ValueError"
  by (simp add: rain_coverage_def crop_def clamped_box_def narrow_shot_def plain_def)

text \<open>
  Claim C10, at the same screenshot. The clamped region of \<open>avg_color\<close> holds no pixel
  either, and \<open>avg_color\<close> raises ValueError instead of returning \<open>(0, 0, 0)\<close>: its
  guard for the empty pixel list is reached only when the box is empty without being
  inverted.
\<close>

theorem avg_color_narrow_shot_raises:
  "clamped_box narrow_shot (640, 360) 7 = (633, 353, 600, 368)
   \<and> avg_color narrow_shot (640, 360) 7 = Inl ValueError"
  by (simp add: avg_color_def crop_def clamped_box_def narrow_shot_def plain_def)


subsection \<open>The displayed clock\<close>

lemmas clock_eval =
  py_int_def py_unsigned_def strip_def is_space_def is_digit_def digit_val_def upper_def
  upper_char_def clock_of_texts_def text_or_empty_def get_map_time_tuple_def stub_page_def
  clock_element_def txt_PM_zh_def txt_AM_zh_def pm_marker_def am_marker_def

lemma clock_of_texts_parsed:
  assumes "py_int hour_txt = Some hour" "py_int minute_txt = Some minute"
  shows "clock_of_texts hour_txt minute_txt ampm_txt =
     Inr (Some (if pm_marker ampm_txt then (if hour < 12 then hour + 12 else hour)
                else if am_marker ampm_txt then (if hour = 12 then 0 else hour)
                else hour, minute))"
proof -
  have "py_int [] = None" by (simp add: py_int_def strip_def)
  then have "hour_txt \<noteq> []" "minute_txt \<noteq> []" using assms by auto
  then show ?thesis using assms by (simp add: clock_of_texts_def)
qed

lemma get_map_time_tuple_parsed:
  assumes "find_element P HourText d = (Inr hour_el, d1)"
    "find_element P MinuteText d1 = (Inr minute_el, d2)"
    "find_element P AmPmText d2 = (Inr ampm_el, d3)"
    "py_int (text_or_empty hour_el) = Some hour"
    "py_int (text_or_empty minute_el) = Some minute"
  shows "get_map_time_tuple P d =
     (Some (if pm_marker (text_or_empty ampm_el) then (if hour < 12 then hour + 12 else hour)
            else if am_marker (text_or_empty ampm_el) then (if hour = 12 then 0 else hour)
            else hour, minute), d3)"
  using assms(1,2,3) clock_of_texts_parsed[OF assms(4,5), of "text_or_empty ampm_el"]
  by (simp add: get_map_time_tuple_def)

text \<open>
  Claim C5. When the hour and minute texts parse, \<open>get_map_time_tuple\<close> returns the
  parsed minute and the parsed hour converted to the 24-hour clock: with a PM marker
  (\<open>PM\<close> in any letter case, or the localized marker) an hour below 12 has 12 added and
  the hour 12 stays 12; otherwise with an AM marker the hour 12 becomes 0; any other
  hour is kept. So the texts 12, 30, AM give \<open>(0, 30)\<close>; 12, 00, PM give \<open>(12, 0)\<close>; and
  3, 15, PM give \<open>(15, 15)\<close>.
\<close>

theorem get_map_time_tuple_am_pm:
  "(find_element P HourText d = (Inr hour_el, d1)
      \<and> find_element P MinuteText d1 = (Inr minute_el, d2)
      \<and> find_element P AmPmText d2 = (Inr ampm_el, d3)
      \<and> py_int (text_or_empty hour_el) = Some hour
      \<and> py_int (text_or_empty minute_el) = Some minute \<longrightarrow>
      get_map_time_tuple P d =
        (Some (if pm_marker (text_or_empty ampm_el) then (if hour < 12 then hour + 12 else hour)
               else if am_marker (text_or_empty ampm_el) then (if hour = 12 then 0 else hour)
               else hour, minute), d3))
   \<and> pm_marker ''PM'' \<and> pm_marker ''pm'' \<and> pm_marker txt_PM_zh
   \<and> am_marker ''AM'' \<and> am_marker ''am'' \<and> am_marker txt_AM_zh
   \<and> \<not> pm_marker ''AM'' \<and> \<not> pm_marker txt_AM_zh
   \<and> get_map_time_tuple (stub_page ''12'' ''30'' ''AM'' None) 0 = (Some (0, 30), 0)
   \<and> get_map_time_tuple (stub_page ''12'' ''00'' ''PM'' None) 0 = (Some (12, 0), 0)
   \<and> get_map_time_tuple (stub_page ''3'' ''15'' ''PM'' None) 0 = (Some (15, 15), 0)
   \<and> get_map_time_tuple (stub_page ''3'' ''15'' txt_PM_zh None) 0 = (Some (15, 15), 0)
   \<and> get_map_time_tuple (stub_page ''12'' ''30'' txt_AM_zh None) 0 = (Some (0, 30), 0)"
proof -
  have gen: "get_map_time_tuple P d =
        (Some (if pm_marker (text_or_empty ampm_el) then (if hour < 12 then hour + 12 else hour)
               else if am_marker (text_or_empty ampm_el) then (if hour = 12 then 0 else hour)
               else hour, minute), d3)"
    if "find_element P HourText d = (Inr hour_el, d1)"
      "find_element P MinuteText d1 = (Inr minute_el, d2)"
      "find_element P AmPmText d2 = (Inr ampm_el, d3)"
      "py_int (text_or_empty hour_el) = Some hour"
      "py_int (text_or_empty minute_el) = Some minute"
    using that by (rule get_map_time_tuple_parsed)
  have markers: "pm_marker ''PM''" "pm_marker ''pm''" "pm_marker txt_PM_zh"
    "am_marker ''AM''" "am_marker ''am''" "am_marker txt_AM_zh"
    "\<not> pm_marker ''AM''" "\<not> pm_marker txt_AM_zh"
    by (simp_all add: clock_eval)
  have ex: "get_map_time_tuple (stub_page ''12'' ''30'' ''AM'' None) 0 = (Some (0, 30), 0)"
    "get_map_time_tuple (stub_page ''12'' ''00'' ''PM'' None) 0 = (Some (12, 0), 0)"
    "get_map_time_tuple (stub_page ''3'' ''15'' ''PM'' None) 0 = (Some (15, 15), 0)"
    "get_map_time_tuple (stub_page ''3'' ''15'' txt_PM_zh None) 0 = (Some (15, 15), 0)"
    "get_map_time_tuple (stub_page ''12'' ''30'' txt_AM_zh None) 0 = (Some (0, 30), 0)"
    by (simp_all add: clock_eval)
  show ?thesis using gen markers ex by blast
qed

theorem get_map_time_tuple_am_pm_witness:
  "find_element (stub_page ''3'' ''15'' ''PM'' None) HourText 0 = (Inr (clock_element ''3''), 0)
   \<and> find_element (stub_page ''3'' ''15'' ''PM'' None) MinuteText 0 = (Inr (clock_element ''15''), 0)
   \<and> find_element (stub_page ''3'' ''15'' ''PM'' None) AmPmText 0 = (Inr (clock_element ''PM''), 0)
   \<and> py_int (text_or_empty (clock_element ''3'')) = Some 3
   \<and> py_int (text_or_empty (clock_element ''15'')) = Some 15
   \<and> pm_marker (text_or_empty (clock_element ''PM''))
   \<and> get_map_time_tuple (stub_page ''3'' ''15'' ''PM'' None) 0 = (Some (15, 15), 0)"
proof -
  have f: "find_element (stub_page ''3'' ''15'' ''PM'' None) HourText 0 = (Inr (clock_element ''3''), 0)"
    "find_element (stub_page ''3'' ''15'' ''PM'' None) MinuteText 0 = (Inr (clock_element ''15''), 0)"
    "find_element (stub_page ''3'' ''15'' ''PM'' None) AmPmText 0 = (Inr (clock_element ''PM''), 0)"
    by (simp_all add: stub_page_def)
  have p: "py_int (text_or_empty (clock_element ''3'')) = Some 3"
    "py_int (text_or_empty (clock_element ''15'')) = Some 15"
    "pm_marker (text_or_empty (clock_element ''PM''))"
    by (simp_all add: clock_eval)
  have "get_map_time_tuple (stub_page ''3'' ''15'' ''PM'' None) 0 = (Some (15, 15), 0)"
    using get_map_time_tuple_am_pm [where P = "stub_page ''3'' ''15'' ''PM'' None" and d = 0
        and ?d1.0 = 0 and ?d2.0 = 0 and ?d3.0 = 0 and hour_el = "clock_element ''3''"
        and minute_el = "clock_element ''15''" and ampm_el = "clock_element ''PM''"
        and hour = 3 and minute = 15] f p
    by simp
  then show ?thesis using f p by simp
qed

text \<open>
  Claim C9, as stated: every value the clock read returns has its hour in \<open>[0, 23]\<close> and
  its minute in \<open>[0, 59]\<close>. The function makes no range check: on the texts 25 and 75 it
  returns \<open>(25, 75)\<close>.
\<close>

theorem get_map_time_tuple_out_of_range:
  "get_map_time_tuple (stub_page ''25'' ''75'' [] None) 0 = (Some (25, 75), 0)
   \<and> \<not> valid_time_of_day (25, 75)"
  by (simp add: clock_eval valid_time_of_day_def)

text \<open>
  Claim C9, amended: a value the clock read returns has its hour in \<open>[0, 23]\<close> and its
  minute in \<open>[0, 59]\<close> whenever the hour text parses to an integer in \<open>[0, 23]\<close> and the
  minute text to an integer in \<open>[0, 59]\<close>, whatever the AM/PM text is.
\<close>

theorem get_map_time_tuple_valid:
  "find_element P HourText d = (Inr hour_el, d1)
     \<and> find_element P MinuteText d1 = (Inr minute_el, d2)
     \<and> find_element P AmPmText d2 = (Inr ampm_el, d3)
     \<and> py_int (text_or_empty hour_el) = Some hour
     \<and> py_int (text_or_empty minute_el) = Some minute
     \<and> valid_time_of_day (hour, minute) \<longrightarrow>
   (\<exists>t. get_map_time_tuple P d = (Some t, d3) \<and> valid_time_of_day t)"
proof (intro impI, elim conjE)
  assume a: "find_element P HourText d = (Inr hour_el, d1)"
    "find_element P MinuteText d1 = (Inr minute_el, d2)"
    "find_element P AmPmText d2 = (Inr ampm_el, d3)"
    "py_int (text_or_empty hour_el) = Some hour"
    "py_int (text_or_empty minute_el) = Some minute"
  assume v: "valid_time_of_day (hour, minute)"
  show "\<exists>t. get_map_time_tuple P d = (Some t, d3) \<and> valid_time_of_day t"
    unfolding get_map_time_tuple_parsed[OF a]
    using v by (auto simp: valid_time_of_day_def)
qed

theorem get_map_time_tuple_valid_witness:
  "find_element (stub_page ''11'' ''59'' ''PM'' None) HourText 0 = (Inr (clock_element ''11''), 0)
   \<and> find_element (stub_page ''11'' ''59'' ''PM'' None) MinuteText 0 = (Inr (clock_element ''59''), 0)
   \<and> find_element (stub_page ''11'' ''59'' ''PM'' None) AmPmText 0 = (Inr (clock_element ''PM''), 0)
   \<and> py_int (text_or_empty (clock_element ''11'')) = Some 11
   \<and> py_int (text_or_empty (clock_element ''59'')) = Some 59
   \<and> valid_time_of_day (11, 59)
   \<and> (\<exists>t. get_map_time_tuple (stub_page ''11'' ''59'' ''PM'' None) 0 = (Some t, 0)
          \<and> valid_time_of_day t)"
proof -
  have f: "find_element (stub_page ''11'' ''59'' ''PM'' None) HourText 0 = (Inr (clock_element ''11''), 0)"
    "find_element (stub_page ''11'' ''59'' ''PM'' None) MinuteText 0 = (Inr (clock_element ''59''), 0)"
    "find_element (stub_page ''11'' ''59'' ''PM'' None) AmPmText 0 = (Inr (clock_element ''PM''), 0)"
    by (simp_all add: stub_page_def)
  have p: "py_int (text_or_empty (clock_element ''11'')) = Some 11"
    "py_int (text_or_empty (clock_element ''59'')) = Some 59"
    "valid_time_of_day (11, 59)"
    by (simp_all add: clock_eval valid_time_of_day_def)
  have "\<exists>t. get_map_time_tuple (stub_page ''11'' ''59'' ''PM'' None) 0 = (Some t, 0)
          \<and> valid_time_of_day t"
    using get_map_time_tuple_valid [where P = "stub_page ''11'' ''59'' ''PM'' None" and d = 0
        and ?d1.0 = 0 and ?d2.0 = 0 and ?d3.0 = 0 and hour_el = "clock_element ''11''"
        and minute_el = "clock_element ''59''" and ampm_el = "clock_element ''PM''"
        and hour = 11 and minute = 59] f p
    by blast
  then show ?thesis using f p by blast
qed


subsection \<open>The alignment loop\<close>

text \<open>Whatever the page does, \<open>click_next\<close> raises nothing but its own exception.\<close>

lemma click_next_error:
  assumes "click_next P d = (Inl e, d')"
  shows "\<exists>b. e = NextButtonNotClickable b"
  using assms
  by (auto simp: click_next_def split: prod.splits sum.splits exn.splits if_splits)

text \<open>The three ways one iteration of the loop can go.\<close>

lemma seek_loop_step:
  obtains
    (Reached) hhmm d1 where
      "get_map_time_tuple P d = (hhmm, d1)" "reached hhmm tgt"
      "seek_loop P tgt mx (Suc n) d = (Inr (), [PageTime hhmm, Reached (the hhmm) tgt], d1)"
  | (Blocked) hhmm d1 b d2 where
      "get_map_time_tuple P d = (hhmm, d1)" "\<not> reached hhmm tgt"
      "click_next P d1 = (Inl (NextButtonNotClickable b), d2)"
      "seek_loop P tgt mx (Suc n) d =
         (Inr (), [PageTime hhmm, WarnLatest (NextButtonNotClickable b)], d2)"
  | (Clicked) hhmm d1 name d2 res lg d3 where
      "get_map_time_tuple P d = (hhmm, d1)" "\<not> reached hhmm tgt"
      "click_next P d1 = (Inr name, d2)"
      "seek_loop P tgt mx n d2 = (res, lg, d3)"
      "seek_loop P tgt mx (Suc n) d =
         (res, PageTime hhmm # Click name (mx - n) mx # lg, d3)"
proof -
  obtain hhmm d1 where g: "get_map_time_tuple P d = (hhmm, d1)"
    by (cases "get_map_time_tuple P d")
  show thesis
  proof (cases "reached hhmm tgt")
    case True
    then have "seek_loop P tgt mx (Suc n) d = (Inr (), [PageTime hhmm, Reached (the hhmm) tgt], d1)"
      using g by simp
    then show thesis using g True by (intro Reached[of hhmm d1]) auto
  next
    case False
    obtain r d2 where c: "click_next P d1 = (r, d2)" by (cases "click_next P d1")
    show thesis
    proof (cases r)
      case (Inl e)
      obtain b where e: "e = NextButtonNotClickable b"
        using click_next_error[of P d1 e d2] c Inl by auto
      have "seek_loop P tgt mx (Suc n) d =
         (Inr (), [PageTime hhmm, WarnLatest (NextButtonNotClickable b)], d2)"
        using g False c Inl e by simp
      then show thesis using g False c Inl e by (intro Blocked[of hhmm d1 b d2]) auto
    next
      case (Inr name)
      obtain res lg d3 where s: "seek_loop P tgt mx n d2 = (res, lg, d3)"
        by (cases "seek_loop P tgt mx n d2")
      have "seek_loop P tgt mx (Suc n) d =
         (res, PageTime hhmm # Click name (mx - n) mx # lg, d3)"
        using g False c Inr s by simp
      then show thesis using g False c Inr s by (intro Clicked[of hhmm d1 name d2 res lg d3]) auto
    qed
  qed
qed












text \<open>
  Claim C4. The loop takes the target as reached by a displayed time \<open>(h, m)\<close> exactly
  when \<open>h > H\<close>, or \<open>h = H\<close> and \<open>m \<ge> M\<close>, for the target \<open>(H, M)\<close>: the comparison is on
  the hour first and then the minute, on one day. \<open>(14, 5)\<close> has reached \<open>(14, 0)\<close>,
  \<open>(13, 59)\<close> has not reached \<open>(14, 0)\<close>, and \<open>(0, 1)\<close> has not reached \<open>(23, 59)\<close>. An
  iteration that reads the time \<open>(h, m)\<close> ends the loop as reached in exactly that case.
\<close>

theorem hhmm_ge_same_day:
  "hhmm_ge (h, m) (H, M) = (h > H \<or> (h = H \<and> m \<ge> M))
   \<and> reached (Some (h, m)) (H, M) = (h > H \<or> (h = H \<and> m \<ge> M))
   \<and> \<not> reached None (H, M)
   \<and> hhmm_ge (14, 5) (14, 0)
   \<and> \<not> hhmm_ge (13, 59) (14, 0)
   \<and> \<not> hhmm_ge (0, 1) (23, 59)
   \<and> (get_map_time_tuple P d = (Some (h, m), d1) \<longrightarrow>
        (fst (snd (seek_loop P (H, M) mx (Suc n) d)) =
           [PageTime (Some (h, m)), Reached (h, m) (H, M)])
        = (h > H \<or> (h = H \<and> m \<ge> M)))"
proof -
  have cmp: "hhmm_ge (h, m) (H, M) = (h > H \<or> (h = H \<and> m \<ge> M))"
    by (simp add: hhmm_ge_def)
  have ex: "hhmm_ge (14, 5) (14, 0)" "\<not> hhmm_ge (13, 59) (14, 0)" "\<not> hhmm_ge (0, 1) (23, 59)"
    by (simp_all add: hhmm_ge_def)
  have loop: "(fst (snd (seek_loop P (H, M) mx (Suc n) d)) =
           [PageTime (Some (h, m)), Reached (h, m) (H, M)])
        = (h > H \<or> (h = H \<and> m \<ge> M))"
    if g: "get_map_time_tuple P d = (Some (h, m), d1)"
  proof (cases rule: seek_loop_step[of P d "(H, M)" mx n])
    case (Reached hhmm d1')
    have eq: "hhmm = Some (h, m)" using Reached(1) g by simp
    show ?thesis using Reached(2,3) unfolding eq by (simp add: reached_def hhmm_ge_def)
  next
    case (Blocked hhmm d1' b d2)
    have eq: "hhmm = Some (h, m)" using Blocked(1) g by simp
    show ?thesis using Blocked(2,4) unfolding eq by (simp add: reached_def hhmm_ge_def)
  next
    case (Clicked hhmm d1' name d2 res lg d3)
    have eq: "hhmm = Some (h, m)" using Clicked(1) g by simp
    show ?thesis using Clicked(2,5) unfolding eq by (simp add: reached_def hhmm_ge_def)
  qed
  show ?thesis using cmp ex loop by (simp add: reached_def)
qed

theorem hhmm_ge_same_day_witness:
  "get_map_time_tuple (stub_page ''2'' ''05'' ''PM'' None) 0 = (Some (14, 5), 0)
   \<and> fst (snd (seek_loop (stub_page ''2'' ''05'' ''PM'' None) (14, 0) 60 (Suc 59) 0)) =
       [PageTime (Some (14, 5)), Reached (14, 5) (14, 0)]"
proof -
  have g: "get_map_time_tuple (stub_page ''2'' ''05'' ''PM'' None) 0 = (Some (14, 5), 0)"
    by (simp add: clock_eval)
  show ?thesis
    using hhmm_ge_same_day [where P = "stub_page ''2'' ''05'' ''PM'' None" and d = 0
        and h = 14 and m = 5 and ?d1.0 = 0 and H = 14 and M = 0 and mx = 60 and n = 59] g
    by simp
qed


subsection \<open>The detection decision\<close>

lemma str_in_iff_sublist: "str_in needle hay = sublist needle hay"
  by (induction hay) (simp_all add: sublist_Cons_right)

lemma detection_msg_marker: "str_in txt_may_rain (detection_msg debug_msg url)"
proof -
  have "detection_msg debug_msg url =
      [CHR 0xE2, CHR 0x9A, CHR 0xA0, CHR 0xEF, CHR 0xB8, CHR 0x8F, CHR 0x20] @ txt_may_rain @
      (drop (7 + length txt_may_rain) txt_msg_head @ [CHR 0x0A] @ debug_msg @ [CHR 0x0A] @ url)"
    by (simp add: detection_msg_def txt_msg_head_def txt_may_rain_def)
  then show ?thesis
    unfolding str_in_iff_sublist by (metis sublist_appendI)
qed

lemma main_report_events:
  "main_report post webhook url debug_msg coverage =
     (if coverage \<ge> 1 / 10 then
        (fst (send_wecom_text post webhook (detection_msg debug_msg url)),
         [Print debug_msg, Print txt_step6, Print ''[RESULT] RAIN_DETECTED'',
          Print (detection_msg debug_msg url)]
         @ snd (send_wecom_text post webhook (detection_msg debug_msg url)))
      else
        (Inr (), [Print debug_msg, Print txt_step6, Print ''[RESULT] NO_RAIN_DETECTED'',
                  Print txt_no_rain]))"
  by (simp add: main_report_def Let_def split: prod.splits)

lemma main_report_posted:
  "posted (snd (main_report post webhook url debug_msg coverage)) =
     (if coverage \<ge> 1 / 10 \<and> webhook \<noteq> [] then [detection_msg debug_msg url] else [])"
  by (simp add: main_report_events send_wecom_text_def)

lemma rain_blue: "is_rain_color (0, 0, 255) = Inr (True, HitBand (240, 1, 1))"
  by (simp add: is_rain_color_def is_rain_color_with_def hsv_blue SATURATION_THRESHOLD_def
        HUE_RANGES_DEG_def)

lemma not_rain_grey: "is_rain_color (128, 128, 128) = Inr (False, SatBelow (0, 0, 128 / 255))"
  by (simp add: is_rain_color_def is_rain_color_with_def rgb_to_hsv_deg_def rgb_to_hsv_def
        SATURATION_THRESHOLD_def)

lemma not_rain_pale_red:
  "is_rain_color (200, 150, 150) = Inr (False, SatBelow (0, 1 / 4, 40 / 51))"
  by (simp add: is_rain_color_def is_rain_color_with_def hsv_pale_red SATURATION_THRESHOLD_def)

lemmas sample_eval =
  crop_def clamped_box_def box_coords_def upto.simps in_bounds_def blue_row_def plain_def

lemma blue_row_3_coverage:
  "rain_coverage (blue_row 3) (10, 1) 12 =
     Inr (3 / 20, Stats (20, 1) 3 20 (3 / 20) (Some (240, 1, 1)))"
  by (simp add: rain_coverage_def sample_eval rain_blue not_rain_grey hsv_blue Let_def)

lemma blue_row_1_coverage:
  "rain_coverage (blue_row 1) (10, 1) 12 =
     Inr (1 / 20, Stats (20, 1) 1 20 (1 / 20) (Some (240, 1, 1)))"
  by (simp add: rain_coverage_def sample_eval rain_blue not_rain_grey hsv_blue Let_def)

lemma blue_row_avg:
  "avg_color (blue_row 3) (10, 1) 7 = Inr (128, 128, 128)"
  "avg_color (blue_row 1) (10, 1) 7 = Inr (128, 128, 128)"
  by (simp_all add: avg_color_def sample_eval Let_def)

lemma plain_pale_red:
  "avg_color (plain 2 2 (200, 150, 150)) (1, 1) 7 = Inr (200, 150, 150)"
  "rain_coverage (plain 2 2 (200, 150, 150)) (1, 1) 12 = Inr (0, Stats (2, 2) 0 4 0 None)"
  by (simp_all add: avg_color_def rain_coverage_def sample_eval not_rain_pale_red Let_def)

lemma plain_cyan:
  "avg_color (plain 2 2 (0, 255, 255)) (1, 1) 7 = Inr (0, 255, 255)"
  "rain_coverage (plain 2 2 (0, 255, 255)) (1, 1) 12 =
     Inr (1, Stats (2, 2) 4 4 1 (Some (180, 1, 1)))"
  by (simp_all add: avg_color_def rain_coverage_def sample_eval rain_cyan hsv_cyan Let_def)

text \<open>
  Claim C8. The decision of a run is the comparison of the coverage with 0.10 and
  nothing else: the detection message is handed to \<open>send_wecom_text\<close> exactly when the
  coverage is at least 0.10, and with a webhook configured it is posted exactly then.
  The message contains the marker text. A coverage of 0.15 posts the message and a
  coverage of 0.05 posts nothing, from \<open>main_report\<close> and from \<open>main_sample\<close> on the
  images \<open>blue_row 3\<close> and \<open>blue_row 1\<close>. The score enters the debug line only: an image
  with a score of 275, above the score threshold, and no coverage posts nothing, and an
  image with a negative score and full coverage posts the message.
\<close>

theorem main_decision_coverage_only:
  "main_report post webhook url debug_msg coverage =
     (if coverage \<ge> 0.10 then
        (fst (send_wecom_text post webhook (detection_msg debug_msg url)),
         [Print debug_msg, Print txt_step6, Print ''[RESULT] RAIN_DETECTED'',
          Print (detection_msg debug_msg url)]
         @ snd (send_wecom_text post webhook (detection_msg debug_msg url)))
      else
        (Inr (), [Print debug_msg, Print txt_step6, Print ''[RESULT] NO_RAIN_DETECTED'',
                  Print txt_no_rain]))
   \<and> (webhook \<noteq> [] \<longrightarrow>
        posted (snd (main_report post webhook url debug_msg coverage)) =
          (if coverage \<ge> 0.10 then [detection_msg debug_msg url] else []))
   \<and> str_in txt_may_rain (detection_msg debug_msg url)
   \<and> posted (snd (main_report post ''hook'' url debug_msg 0.15)) = [detection_msg debug_msg url]
   \<and> posted (snd (main_report post ''hook'' url debug_msg 0.05)) = []
   \<and> (avg_color img (vp_width vp div 2, vp_height vp div 2) 7 = Inr rgb
        \<and> rain_coverage img (vp_width vp div 2, vp_height vp div 2) 12 = Inr (coverage, dbg)
        \<and> webhook \<noteq> [] \<longrightarrow>
        posted (snd (main_sample fmt post webhook url vp img)) =
          (if coverage \<ge> 0.10
           then [detection_msg
                   (fmt (vp_width vp div 2, vp_height vp div 2) rgb (rain_score rgb) coverage dbg)
                   url]
           else []))
   \<and> posted (snd (main_sample fmt post ''hook'' url \<lparr>vp_width = 20, vp_height = 2\<rparr> (blue_row 3))) =
       [detection_msg (fmt (10, 1) (128, 128, 128) (rain_score (128, 128, 128)) (3 / 20)
                         (Stats (20, 1) 3 20 (3 / 20) (Some (240, 1, 1)))) url]
   \<and> posted (snd (main_sample fmt post ''hook'' url \<lparr>vp_width = 20, vp_height = 2\<rparr> (blue_row 1))) = []
   \<and> rain_score (200, 150, 150) = 275 \<and> RAIN_SCORE_THRESHOLD < 275
   \<and> posted (snd (main_sample fmt post ''hook'' url \<lparr>vp_width = 2, vp_height = 2\<rparr>
                     (plain 2 2 (200, 150, 150)))) = []
   \<and> rain_score (0, 255, 255) = - (153 / 2) \<and> - (153 / 2) < RAIN_SCORE_THRESHOLD
   \<and> posted (snd (main_sample fmt post ''hook'' url \<lparr>vp_width = 2, vp_height = 2\<rparr>
                     (plain 2 2 (0, 255, 255)))) =
       [detection_msg (fmt (1, 1) (0, 255, 255) (- (153 / 2)) 1
                         (Stats (2, 2) 4 4 1 (Some (180, 1, 1)))) url]"
proof -
  have rep: "main_report post webhook url debug_msg coverage =
     (if coverage \<ge> 0.10 then
        (fst (send_wecom_text post webhook (detection_msg debug_msg url)),
         [Print debug_msg, Print txt_step6, Print ''[RESULT] RAIN_DETECTED'',
          Print (detection_msg debug_msg url)]
         @ snd (send_wecom_text post webhook (detection_msg debug_msg url)))
      else
        (Inr (), [Print debug_msg, Print txt_step6, Print ''[RESULT] NO_RAIN_DETECTED'',
                  Print txt_no_rain]))"
    using main_report_events[of post webhook url debug_msg coverage] by simp
  have pst: "posted (snd (main_report post webhook url debug_msg coverage)) =
          (if coverage \<ge> 0.10 then [detection_msg debug_msg url] else [])"
    if "webhook \<noteq> []"
    using that by (simp add: main_report_posted)
  have c15: "posted (snd (main_report post ''hook'' url debug_msg 0.15)) = [detection_msg debug_msg url]"
    by (simp add: main_report_posted)
  have c05: "posted (snd (main_report post ''hook'' url debug_msg 0.05)) = []"
    by (simp add: main_report_posted)
  have smp: "posted (snd (main_sample fmt post webhook url vp img)) =
          (if coverage \<ge> 0.10
           then [detection_msg
                   (fmt (vp_width vp div 2, vp_height vp div 2) rgb (rain_score rgb) coverage dbg)
                   url]
           else [])"
    if "avg_color img (vp_width vp div 2, vp_height vp div 2) 7 = Inr rgb"
      "rain_coverage img (vp_width vp div 2, vp_height vp div 2) 12 = Inr (coverage, dbg)"
      "webhook \<noteq> []"
    using that by (simp add: main_sample_def Let_def main_report_posted)
  have e1: "posted (snd (main_sample fmt post ''hook'' url \<lparr>vp_width = 20, vp_height = 2\<rparr> (blue_row 3))) =
       [detection_msg (fmt (10, 1) (128, 128, 128) (rain_score (128, 128, 128)) (3 / 20)
                         (Stats (20, 1) 3 20 (3 / 20) (Some (240, 1, 1)))) url]"
    by (simp add: main_sample_def Let_def main_report_posted blue_row_avg blue_row_3_coverage)
  have e2: "posted (snd (main_sample fmt post ''hook'' url \<lparr>vp_width = 20, vp_height = 2\<rparr> (blue_row 1))) = []"
    by (simp add: main_sample_def Let_def main_report_posted blue_row_avg blue_row_1_coverage)
  have s1: "rain_score (200, 150, 150) = 275" "RAIN_SCORE_THRESHOLD < 275"
    "rain_score (0, 255, 255) = - (153 / 2)" "- (153 / 2) < RAIN_SCORE_THRESHOLD"
    by (simp_all add: rain_score_def RAIN_SCORE_THRESHOLD_def)
  have e3: "posted (snd (main_sample fmt post ''hook'' url \<lparr>vp_width = 2, vp_height = 2\<rparr>
                     (plain 2 2 (200, 150, 150)))) = []"
    by (simp add: main_sample_def Let_def main_report_posted plain_pale_red)
  have e4: "posted (snd (main_sample fmt post ''hook'' url \<lparr>vp_width = 2, vp_height = 2\<rparr>
                     (plain 2 2 (0, 255, 255)))) =
       [detection_msg (fmt (1, 1) (0, 255, 255) (- (153 / 2)) 1
                         (Stats (2, 2) 4 4 1 (Some (180, 1, 1)))) url]"
    by (simp add: main_sample_def Let_def main_report_posted plain_cyan s1)
  show ?thesis
    using rep pst detection_msg_marker[of debug_msg url] c15 c05 smp e1 e2 s1 e3 e4
    by blast
qed

theorem main_decision_coverage_only_witness:
  "''hook'' \<noteq> []
   \<and> avg_color (blue_row 3) (20 div 2, 2 div 2) 7 = Inr (128, 128, 128)
   \<and> rain_coverage (blue_row 3) (20 div 2, 2 div 2) 12 =
       Inr (3 / 20, Stats (20, 1) 3 20 (3 / 20) (Some (240, 1, 1)))
   \<and> (0.10 :: real) \<le> 3 / 20
   \<and> posted (snd (main_report (\<lambda>w c. Inr ()) ''hook'' ''url'' ''dbg'' (3 / 20))) =
       [detection_msg ''dbg'' ''url'']
   \<and> posted (snd (main_sample (\<lambda>xy rgb score cov dbg. ''dbg'') (\<lambda>w c. Inr ()) ''hook'' ''url''
                     \<lparr>vp_width = 20, vp_height = 2\<rparr> (blue_row 3))) =
       [detection_msg ''dbg'' ''url'']"
proof -
  have a: "avg_color (blue_row 3) (20 div 2, 2 div 2) 7 = Inr (128, 128, 128)"
    "rain_coverage (blue_row 3) (20 div 2, 2 div 2) 12 =
       Inr (3 / 20, Stats (20, 1) 3 20 (3 / 20) (Some (240, 1, 1)))"
    using blue_row_avg(1) blue_row_3_coverage by simp_all
  note inst = main_decision_coverage_only [where post = "\<lambda>w c. Inr ()" and webhook = "''hook''"
      and url = "''url''" and debug_msg = "''dbg''" and coverage = "3 / 20"
      and img = "blue_row 3" and vp = "\<lparr>vp_width = 20, vp_height = 2\<rparr>"
      and rgb = "(128, 128, 128)" and dbg = "Stats (20, 1) 3 20 (3 / 20) (Some (240, 1, 1))"
      and fmt = "\<lambda>xy rgb score cov dbg. ''dbg''"]
  show ?thesis using inst a by (simp add: send_wecom_text_def)
qed


end
